theory Spec2Isabelle
  imports Main
begin

section \<open>Data model of components/Chat.tsx\<close>

text \<open>
  A chat message as the component builds it: \<open>{ role: 'user' | 'model', content }\<close>.
\<close>

datatype role = User | Model

record ChatMessage =
  role :: role
  content :: string

text \<open>The prop \<open>storageConsent: 'pending' | 'accepted' | 'declined'\<close>.\<close>

datatype consent = Pending | Accepted | Declined

text \<open>
  What the component is given and what the browser offers. \<open>storageConsent\<close> is the prop;
  \<open>savedMessages\<close> is what \<open>loadChatHistory()\<close> of utils/cookieManager returns (that module is
  outside the component, so its answer is a parameter; \<open>None\<close> is \<open>null\<close>);
  \<open>speechSynthesis\<close> says whether \<open>window.speechSynthesis\<close> is defined;
  \<open>SpeechRecognitionAPI\<close> says whether
  \<open>window.SpeechRecognition || window.webkitSpeechRecognition\<close> is defined, which is also
  whether \<open>recognitionRef.current\<close> is set after the mount effect.
  The prop \<open>prescriptionData\<close> is handed to \<open>getChatResponse\<close> untouched and is left out.
\<close>

record env =
  storageConsent :: consent
  savedMessages :: "ChatMessage list option"
  speechSynthesis :: bool
  SpeechRecognitionAPI :: bool

text \<open>
  Calls that leave the component, in the order they are made. \<open>CallSpeak\<close> marks an
  invocation of the component's own \<open>speak\<close>; \<open>SynthCancel\<close> and \<open>SynthSpeak\<close> are the
  calls on \<open>window.speechSynthesis\<close>; \<open>RecognitionStart\<close> and \<open>RecognitionStop\<close> the calls
  on the recognition object.
\<close>

datatype effect =
    LoadChatHistory
  | SaveChatHistory "ChatMessage list"
  | ClearChatHistory
  | GetChatResponse "ChatMessage list"
  | CallSpeak string
  | SynthCancel
  | SynthSpeak string
  | RecognitionStart
  | RecognitionStop
  | ConsoleWarn
  | ConsoleError

fun is_persistence :: "effect \<Rightarrow> bool" where
  "is_persistence LoadChatHistory = True"
| "is_persistence (SaveChatHistory ms) = True"
| "is_persistence ClearChatHistory = True"
| "is_persistence e = False"

fun is_generation :: "effect \<Rightarrow> bool" where
  "is_generation (GetChatResponse ms) = True"
| "is_generation e = False"

fun is_speak_call :: "effect \<Rightarrow> bool" where
  "is_speak_call (CallSpeak t) = True"
| "is_speak_call e = False"

text \<open>
  The React state of \<open>AIChat\<close> and of its hook \<open>useSpeechRecognition\<close> (\<open>speechText\<close> is the
  hook's \<open>text\<close>), together with the calls made so far and the number of
  \<open>getChatResponse\<close> promises that have not settled yet.
\<close>

record session =
  messages :: "ChatMessage list"
  input :: string
  isLoading :: bool
  speechText :: string
  isRecording :: bool
  trace :: "effect list"
  inflight :: nat

datatype js_error = TypeError

text \<open>
  A handler either returns or throws; the state updates it queued before throwing are
  still applied by React, so both outcomes carry a state.
\<close>

datatype outcome = Returned session | Threw js_error session

fun settle :: "outcome \<Rightarrow> session" where
  "settle (Returned w) = w"
| "settle (Threw e w) = w"

fun threw :: "outcome \<Rightarrow> bool" where
  "threw (Returned w) = False"
| "threw (Threw e w) = True"

definition emit :: "effect \<Rightarrow> session \<Rightarrow> session" where
  "emit e w = w\<lparr>trace := trace w @ [e]\<rparr>"

section \<open>Strings and event objects of the platform\<close>

text \<open>
  \<open>String.prototype.trim\<close> removes white space and line terminators at both ends. Over
  8-bit characters these are tab, line feed, vertical tab, form feed, carriage return,
  space and no-break space.
\<close>

definition isWhiteSpace :: "char \<Rightarrow> bool" where
  "isWhiteSpace c =
     (c = CHR 0x09 \<or> c = CHR 0x0A \<or> c = CHR 0x0B \<or> c = CHR 0x0C \<or> c = CHR 0x0D
      \<or> c = CHR 0x20 \<or> c = CHR 0xA0)"

definition js_trim :: "string \<Rightarrow> string" where
  "js_trim s = rev (dropWhile isWhiteSpace (rev (dropWhile isWhiteSpace s)))"

text \<open>
  Values reached through property access on an event object. Reading a property of
  \<open>undefined\<close> throws a TypeError; reading a property an object does not have gives
  \<open>undefined\<close> (a string has none of the properties read here).
\<close>

datatype jsval = Undefined | Str string | Obj "(string \<times> jsval) list"

fun get_prop :: "jsval \<Rightarrow> string \<Rightarrow> js_error + jsval" where
  "get_prop Undefined p = Inl TypeError"
| "get_prop (Str s) p = Inr Undefined"
| "get_prop (Obj kvs) p = (case map_of kvs p of None \<Rightarrow> Inr Undefined | Some v \<Rightarrow> Inr v)"

text \<open>The change event of a text field whose content is now \<open>t\<close>.\<close>

definition changeEvent :: "string \<Rightarrow> jsval" where
  "changeEvent t = Obj [(''target'', Obj [(''value'', Str t)])]"

text \<open>One entry of \<open>event.results\<close>: \<open>transcript\<close> is \<open>results[i][0].transcript\<close>.\<close>

record speech_result =
  isFinal :: bool
  transcript :: string

section \<open>Speech playback: speak\<close>

definition speak :: "env \<Rightarrow> string \<Rightarrow> session \<Rightarrow> session" where
  "speak env txt w =
     (let w0 = emit (CallSpeak txt) w in
      if \<not> speechSynthesis env then emit ConsoleWarn w0
      else emit (SynthSpeak txt) (emit SynthCancel w0))"

section \<open>Speech capture: useSpeechRecognition\<close>

text \<open>The \<open>for\<close> loop of \<open>recognition.onresult\<close>, with its two accumulators.\<close>

fun onresult_loop :: "speech_result list \<Rightarrow> string \<Rightarrow> string \<Rightarrow> string \<times> string" where
  "onresult_loop [] finalTranscript interimTranscript = (finalTranscript, interimTranscript)"
| "onresult_loop (r # rs) finalTranscript interimTranscript =
     (if isFinal r then onresult_loop rs (finalTranscript @ transcript r) interimTranscript
      else onresult_loop rs finalTranscript (interimTranscript @ transcript r))"

definition onresult :: "speech_result list \<Rightarrow> session \<Rightarrow> session" where
  "onresult results w =
     (case onresult_loop results [] [] of
        (finalTranscript, interimTranscript) \<Rightarrow>
          w\<lparr>speechText := finalTranscript @ interimTranscript\<rparr>)"

definition onerror :: "session \<Rightarrow> session" where
  "onerror w = emit ConsoleError w"

definition onend :: "session \<Rightarrow> session" where
  "onend w = w\<lparr>isRecording := False\<rparr>"

definition startRecording :: "env \<Rightarrow> session \<Rightarrow> session" where
  "startRecording env w =
     (if SpeechRecognitionAPI env \<and> \<not> isRecording w
      then (emit RecognitionStart (w\<lparr>speechText := []\<rparr>))\<lparr>isRecording := True\<rparr>
      else w)"

definition stopRecording :: "env \<Rightarrow> session \<Rightarrow> session" where
  "stopRecording env w =
     (if SpeechRecognitionAPI env \<and> isRecording w
      then (emit RecognitionStop w)\<lparr>isRecording := False\<rparr>
      else w)"

section \<open>The chat component: AIChat\<close>

definition initialMessage :: ChatMessage where
  "initialMessage = \<lparr>role = Model, content =
     ''Hello! I'' @ [CHR 0x27] @ ''m your health & wellness assistant. You can ask me general questions about health topics. How can I help you today?''
     @ [CHR 0x0A, CHR 0x0A] @ ''Remember, I am not a doctor and this is not medical advice.''\<rparr>"

definition errorMessage :: ChatMessage where
  "errorMessage = \<lparr>role = Model, content =
     ''Sorry, I encountered an error. Please try again. '' @ [CHR 0x0A, CHR 0x0A]
     @ ''Disclaimer: This is for informational purposes only and not a substitute for professional medical advice.''\<rparr>"

text \<open>The two effects of \<open>AIChat\<close> that touch what the claims are about.\<close>

definition saveEffect :: "env \<Rightarrow> session \<Rightarrow> session" where
  "saveEffect env w =
     (if storageConsent env = Accepted \<and> length (messages w) > 1
      then emit (SaveChatHistory (messages w)) w else w)"

definition speechEffect :: "session \<Rightarrow> session" where
  "speechEffect w = (if speechText w \<noteq> [] then w\<lparr>input := speechText w\<rparr> else w)"

text \<open>
  Mounting: the initializer of \<open>messages\<close>, the mount effect of the hook (which only warns
  when recognition is missing), then the save effect on the first render.
\<close>

definition mount :: "env \<Rightarrow> session" where
  "mount env =
     (let w0 = \<lparr>messages = [initialMessage], input = [], isLoading = False, speechText = [],
                isRecording = False, trace = [], inflight = 0\<rparr>;
          w1 = (if storageConsent env = Accepted then
                  (let w' = emit LoadChatHistory w0 in
                   case savedMessages env of
                     None \<Rightarrow> w'
                   | Some ms \<Rightarrow> if length ms > 0 then w'\<lparr>messages := ms\<rparr> else w')
                else w0);
          w2 = (if SpeechRecognitionAPI env then w1 else emit ConsoleWarn w1)
      in saveEffect env w2)"

text \<open>
  \<open>handleSendMessage\<close> up to its \<open>await\<close>. \<open>window.speechSynthesis.cancel()\<close> is called
  without the test that \<open>speak\<close> makes, so it throws when the capability is missing: the
  rest of the body is skipped and the promise of the async handler rejects.
\<close>

definition handleSendMessage :: "env \<Rightarrow> session \<Rightarrow> outcome" where
  "handleSendMessage env w =
     (if js_trim (input w) = [] \<or> isLoading w then Returned w
      else
        let w1 = (if isRecording w then stopRecording env w else w) in
        if \<not> speechSynthesis env then Threw TypeError w1
        else
          let w2 = emit SynthCancel w1;
              userMessage = \<lparr>role = User, content = input w\<rparr>;
              w3 = w2\<lparr>messages := messages w2 @ [userMessage], input := [],
                      speechText := [], isLoading := True\<rparr>;
              chatHistory = messages w @ [userMessage]
          in Returned ((emit (GetChatResponse chatHistory) w3)\<lparr>inflight := Suc (inflight w3)\<rparr>))"

text \<open>The rest of \<open>handleSendMessage\<close>: the promise resolves with \<open>response\<close>.\<close>

definition onResponse :: "env \<Rightarrow> string \<Rightarrow> session \<Rightarrow> session" where
  "onResponse env response w =
     (let modelMessage = \<lparr>role = Model, content = response\<rparr>;
          w1 = w\<lparr>messages := messages w @ [modelMessage]\<rparr>;
          w2 = speak env (content modelMessage) w1
      in w2\<lparr>isLoading := False, inflight := inflight w2 - 1\<rparr>)"

text \<open>The \<open>catch\<close> branch: the promise rejects with an error whose text is \<open>err\<close>.\<close>

definition onFailure :: "env \<Rightarrow> string \<Rightarrow> session \<Rightarrow> session" where
  "onFailure env err w =
     (let w0 = emit ConsoleError w;
          w1 = w0\<lparr>messages := messages w0 @ [errorMessage]\<rparr>;
          w2 = speak env (content errorMessage) w1
      in w2\<lparr>isLoading := False, inflight := inflight w2 - 1\<rparr>)"

definition handleClearChat :: "env \<Rightarrow> session \<Rightarrow> outcome" where
  "handleClearChat env w =
     (let w1 = (if storageConsent env = Accepted then emit ClearChatHistory w else w);
          w2 = w1\<lparr>messages := [initialMessage]\<rparr>
      in if \<not> speechSynthesis env then Threw TypeError w2
         else
           let w3 = emit SynthCancel w2
           in Returned (if isRecording w then stopRecording env w3 else w3))"

definition handleToggleRecording :: "env \<Rightarrow> session \<Rightarrow> session" where
  "handleToggleRecording env w =
     (if isRecording w then stopRecording env w else startRecording env w)"

text \<open>
  The text field's \<open>onChange\<close>, \<open>e => setInput(e.targe.value)\<close>: it reads the property
  \<open>targe\<close> of the event. A value that is not a string would make the next render throw
  at \<open>input.trim()\<close>.
\<close>

definition onChange :: "jsval \<Rightarrow> session \<Rightarrow> outcome" where
  "onChange e w =
     (case get_prop e ''targe'' of
        Inl err \<Rightarrow> Threw err w
      | Inr tg \<Rightarrow>
          (case get_prop tg ''value'' of
             Inl err \<Rightarrow> Threw err w
           | Inr (Str s) \<Rightarrow> Returned (w\<lparr>input := s\<rparr>)
           | Inr v \<Rightarrow> Threw TypeError w))"

section \<open>The session as an event loop\<close>

text \<open>
  What can happen to a mounted component: the form is submitted, the user types so that
  the field holds a text, the microphone or the clear button is clicked, the recognition
  engine reports results, an error or its end, and the pending \<open>getChatResponse\<close> promise
  resolves or rejects.
\<close>

datatype event =
    Submit
  | Change string
  | ToggleRecording
  | ClearChat
  | RecognitionResult "speech_result list"
  | RecognitionError
  | RecognitionEnd
  | ResponseOk string
  | ResponseFailed string

text \<open>
  After a handler, React renders and runs the effects whose dependencies changed: the
  save effect depends on \<open>messages\<close>, the mirroring effect on \<open>speechText\<close>. (Every
  \<open>setMessages\<close> of the component either appends or installs the one-element greeting
  list, for which the save effect does nothing, so comparing the lists decides the save
  effect as comparing the array references does.)
\<close>

definition render :: "env \<Rightarrow> session \<Rightarrow> session \<Rightarrow> session" where
  "render env old new =
     (let w1 = (if messages new \<noteq> messages old then saveEffect env new else new)
      in if speechText new \<noteq> speechText old then speechEffect w1 else w1)"

text \<open>
  One event. The text field and the microphone button carry \<open>disabled={isLoading}\<close>, so
  their handlers are not reached while a response is awaited. The recognition callbacks
  exist only when the recognition object was created. A promise settles only if one is
  pending.
\<close>

fun step :: "env \<Rightarrow> session \<Rightarrow> event \<Rightarrow> session" where
  "step env w Submit = render env w (settle (handleSendMessage env w))"
| "step env w (Change t) =
     (if isLoading w then w else render env w (settle (onChange (changeEvent t) w)))"
| "step env w ToggleRecording =
     (if isLoading w then w else render env w (handleToggleRecording env w))"
| "step env w ClearChat = render env w (settle (handleClearChat env w))"
| "step env w (RecognitionResult rs) =
     (if SpeechRecognitionAPI env then render env w (onresult rs w) else w)"
| "step env w RecognitionError =
     (if SpeechRecognitionAPI env then render env w (onerror w) else w)"
| "step env w RecognitionEnd =
     (if SpeechRecognitionAPI env then render env w (onend w) else w)"
| "step env w (ResponseOk response) =
     (if inflight w = 0 then w else render env w (onResponse env response w))"
| "step env w (ResponseFailed err) =
     (if inflight w = 0 then w else render env w (onFailure env err w))"

fun run :: "env \<Rightarrow> session \<Rightarrow> event list \<Rightarrow> session" where
  "run env w [] = w"
| "run env w (e # es) = run env (step env w e) es"

section \<open>Invariant of the busy flag\<close>

text \<open>
  The busy flag and the pending promise go together: a request is outstanding exactly
  while \<open>isLoading\<close> holds.
\<close>

definition busy_inv :: "session \<Rightarrow> bool" where
  "busy_inv w = (inflight w = (if isLoading w then 1 else 0))"

section \<open>Concrete sessions\<close>

text \<open>
  A browser with both speech capabilities and consent declined; the same with consent
  accepted; and a browser that has recognition but no speech synthesis.
\<close>

definition env_declined :: env where
  "env_declined = \<lparr>storageConsent = Declined, savedMessages = None,
                    speechSynthesis = True, SpeechRecognitionAPI = True\<rparr>"

definition env_accepted :: env where
  "env_accepted = \<lparr>storageConsent = Accepted, savedMessages = None,
                    speechSynthesis = True, SpeechRecognitionAPI = True\<rparr>"

definition env_no_synthesis :: env where
  "env_no_synthesis = \<lparr>storageConsent = Accepted, savedMessages = None,
                        speechSynthesis = False, SpeechRecognitionAPI = True\<rparr>"

text \<open>
  The user switches the microphone on, the engine reports one finalized segment \<open>t\<close>, and
  the user switches the microphone off: the pending input now holds \<open>t\<close>.
\<close>

definition dictate :: "string \<Rightarrow> event list" where
  "dictate t = [ToggleRecording, RecognitionResult [\<lparr>isFinal = True, transcript = t\<rparr>],
                ToggleRecording]"

definition after_dictation :: "env \<Rightarrow> string \<Rightarrow> session" where
  "after_dictation env t = run env (mount env) (dictate t)"

text \<open>The same session after the dictated text was submitted: a response is awaited.\<close>

definition awaiting :: "env \<Rightarrow> string \<Rightarrow> session" where
  "awaiting env t = step env (after_dictation env t) Submit"

section \<open>Basic facts\<close>

lemmas handler_defs =
  emit_def speak_def onresult_def onerror_def onend_def startRecording_def stopRecording_def
  saveEffect_def speechEffect_def handleSendMessage_def onResponse_def onFailure_def
  handleClearChat_def handleToggleRecording_def render_def Let_def

lemmas scenario_defs =
  env_declined_def env_accepted_def env_no_synthesis_def dictate_def after_dictation_def
  awaiting_def mount_def js_trim_def isWhiteSpace_def

lemma onChange_changeEvent: "onChange (changeEvent t) w = Threw TypeError w"
  by (simp add: onChange_def changeEvent_def)

lemma onresult_loop_eq:
  "onresult_loop rs f i =
     (f @ concat (map transcript (filter isFinal rs)),
      i @ concat (map transcript (filter (\<lambda>r. \<not> isFinal r) rs)))"
  by (induction rs arbitrary: f i) auto

lemma render_same: "render env w w = w"
  by (simp add: render_def)

subsection \<open>Persistence calls along a run\<close>

lemma step_persistence:
  "storageConsent env \<noteq> Accepted \<Longrightarrow>
     filter is_persistence (trace (step env w ev)) = filter is_persistence (trace w)"
  by (cases ev) (auto simp: handler_defs onChange_changeEvent split: prod.splits)

lemma mount_persistence:
  "storageConsent env \<noteq> Accepted \<Longrightarrow> filter is_persistence (trace (mount env)) = []"
  by (simp add: mount_def handler_defs)

lemma run_persistence:
  "storageConsent env \<noteq> Accepted \<Longrightarrow>
     filter is_persistence (trace (run env w evs)) = filter is_persistence (trace w)"
  by (induction evs arbitrary: w) (simp_all add: step_persistence)

subsection \<open>The transcript along a run\<close>

lemma step_messages_cases:
  "messages (step env w ev) = messages w
   \<or> (\<exists>m. messages (step env w ev) = messages w @ [m])
   \<or> messages (step env w ev) = [initialMessage]"
  by (cases ev) (auto simp: handler_defs onChange_changeEvent split: prod.splits)

lemma step_messages_nonempty: "messages w \<noteq> [] \<Longrightarrow> messages (step env w ev) \<noteq> []"
  using step_messages_cases [of env w ev] by auto

lemma mount_messages_nonempty: "messages (mount env) \<noteq> []"
  by (auto simp: mount_def handler_defs split: option.splits)

lemma run_messages_nonempty: "messages w \<noteq> [] \<Longrightarrow> messages (run env w evs) \<noteq> []"
  by (induction evs arbitrary: w) (simp_all add: step_messages_nonempty)

lemma clear_messages: "messages (step env w ClearChat) = [initialMessage]"
  by (auto simp: handler_defs)

subsection \<open>The busy flag along a run\<close>

lemma step_busy_inv: "busy_inv w \<Longrightarrow> busy_inv (step env w ev)"
  by (cases ev) (auto simp: busy_inv_def handler_defs onChange_changeEvent split: prod.splits)

lemma mount_busy_inv: "busy_inv (mount env)"
  by (auto simp: busy_inv_def mount_def handler_defs split: option.splits)

lemma run_busy_inv: "busy_inv w \<Longrightarrow> busy_inv (run env w evs)"
  by (induction evs arbitrary: w) (simp_all add: step_busy_inv)

subsection \<open>The concrete sessions, evaluated\<close>

lemma after_dictation_hi:
  "after_dictation env_declined ''hi'' =
     \<lparr>messages = [initialMessage], input = ''hi'', isLoading = False, speechText = ''hi'',
      isRecording = False, trace = [RecognitionStart, RecognitionStop], inflight = 0\<rparr>"
  by (simp add: scenario_defs handler_defs)

lemma after_dictation_padded:
  "after_dictation env_declined '' hi '' =
     \<lparr>messages = [initialMessage], input = '' hi '', isLoading = False, speechText = '' hi '',
      isRecording = False, trace = [RecognitionStart, RecognitionStop], inflight = 0\<rparr>"
  by (simp add: scenario_defs handler_defs)

lemma after_dictation_blank:
  "after_dictation env_declined ''  '' =
     \<lparr>messages = [initialMessage], input = ''  '', isLoading = False, speechText = ''  '',
      isRecording = False, trace = [RecognitionStart, RecognitionStop], inflight = 0\<rparr>"
  by (simp add: scenario_defs handler_defs)

lemma awaiting_hi:
  "awaiting env_declined ''hi'' =
     \<lparr>messages = [initialMessage, \<lparr>role = User, content = ''hi''\<rparr>], input = [],
      isLoading = True, speechText = [], isRecording = False,
      trace = [RecognitionStart, RecognitionStop, SynthCancel,
               GetChatResponse [initialMessage, \<lparr>role = User, content = ''hi''\<rparr>]],
      inflight = 1\<rparr>"
  by (simp add: awaiting_def after_dictation_hi)
     (simp add: env_declined_def js_trim_def isWhiteSpace_def handler_defs)

text \<open>
  The trace does record persistence calls: with consent accepted the same kind of session
  loads at the start, saves after the submit and erases on clear.
\<close>

lemma accepted_session_persists:
  "filter is_persistence
     (trace (run env_accepted (mount env_accepted) (dictate ''hi'' @ [Submit, ClearChat]))) =
   [LoadChatHistory, SaveChatHistory [initialMessage, \<lparr>role = User, content = ''hi''\<rparr>],
    ClearChatHistory]"
  by (simp add: scenario_defs handler_defs)

section \<open>Persistence is gated by consent\<close>

text \<open>
  C1. When the consent flag is not \<open>accepted\<close> (it is \<open>pending\<close> or \<open>declined\<close>), no
  persistence call is ever made: neither the load at mount, nor a save after the transcript
  changed, nor the erase of the store, through any sequence of events.
\<close>

theorem persistence_gated:
  "storageConsent env \<noteq> Accepted \<Longrightarrow>
     filter is_persistence (trace (run env (mount env) evs)) = []"
  by (simp add: run_persistence mount_persistence)

theorem persistence_gated_witness:
  "storageConsent env_declined \<noteq> Accepted \<and>
   filter is_persistence
     (trace (run env_declined (mount env_declined)
        (dictate ''hi'' @ [Submit, ResponseOk ''ok'', ClearChat]))) = []"
proof -
  have h: "storageConsent env_declined \<noteq> Accepted"
    by (simp add: env_declined_def)
  show ?thesis
    using h persistence_gated [OF h] by simp
qed

section \<open>Rejected submits\<close>

text \<open>
  C2. A submit while a response is awaited, or with a pending input that is empty after
  trimming, returns at once and changes nothing: the whole session state, the calls made
  so far included, is as before, so no user message is appended and no generation call is
  issued. Along every run at most one generation request is outstanding.
\<close>

theorem submit_rejected_silently:
  "(isLoading w \<or> js_trim (input w) = [] \<longrightarrow>
      handleSendMessage env w = Returned w \<and> step env w Submit = w)
   \<and> inflight (run env (mount env) evs) \<le> 1"
proof
  show "isLoading w \<or> js_trim (input w) = [] \<longrightarrow>
      handleSendMessage env w = Returned w \<and> step env w Submit = w"
    by (auto simp: handleSendMessage_def render_same)
next
  have "busy_inv (run env (mount env) evs)"
    by (simp add: run_busy_inv mount_busy_inv)
  then show "inflight (run env (mount env) evs) \<le> 1"
    by (simp add: busy_inv_def split: if_splits)
qed

theorem submit_rejected_silently_witness:
  "isLoading (awaiting env_declined ''hi'')
   \<and> handleSendMessage env_declined (awaiting env_declined ''hi'')
       = Returned (awaiting env_declined ''hi'')
   \<and> step env_declined (awaiting env_declined ''hi'') Submit = awaiting env_declined ''hi''
   \<and> js_trim (input (after_dictation env_declined ''  '')) = []
   \<and> step env_declined (after_dictation env_declined ''  '') Submit
       = after_dictation env_declined ''  ''
   \<and> inflight (run env_declined (mount env_declined) (dictate ''hi'' @ [Submit, Submit])) \<le> 1"
proof -
  have busy: "isLoading (awaiting env_declined ''hi'')"
    by (simp add: awaiting_hi)
  have blank: "js_trim (input (after_dictation env_declined ''  '')) = []"
    by (simp add: after_dictation_blank js_trim_def isWhiteSpace_def)
  show ?thesis
    using busy blank
      submit_rejected_silently [of "awaiting env_declined ''hi''" env_declined
        "dictate ''hi'' @ [Submit, Submit]"]
      submit_rejected_silently [of "after_dictation env_declined ''  ''" env_declined "[]"]
    by (simp add: render_same)
qed

section \<open>Accepted submits\<close>

text \<open>
  C3, as the specification states it, fails: the message appended by a submit carries the
  pending input as it is, not its trimmed form. After dictating \<open>'' hi ''\<close> the appended
  user message has that content, blanks included, while the trimmed input is \<open>''hi''\<close>.
\<close>

theorem submit_trimmed_content_counterexample:
  "\<not> isLoading (after_dictation env_declined '' hi '')
   \<and> js_trim (input (after_dictation env_declined '' hi '')) = ''hi''
   \<and> messages (step env_declined (after_dictation env_declined '' hi '') Submit)
       = messages (after_dictation env_declined '' hi '') @ [\<lparr>role = User, content = '' hi ''\<rparr>]
   \<and> content (last (messages (step env_declined (after_dictation env_declined '' hi '') Submit)))
       \<noteq> js_trim (input (after_dictation env_declined '' hi ''))"
  by (simp add: after_dictation_padded)
     (simp add: env_declined_def js_trim_def isWhiteSpace_def handler_defs)

text \<open>
  C3, amended. For every submit in the idle state with a pending input that is not only
  white space, on a platform with speech synthesis, exactly one user message is appended
  and its content is the pending input unchanged (not trimmed).
\<close>

theorem submit_appends_raw_input:
  "\<not> isLoading w \<Longrightarrow> js_trim (input w) \<noteq> [] \<Longrightarrow> speechSynthesis env \<Longrightarrow>
     messages (step env w Submit) = messages w @ [\<lparr>role = User, content = input w\<rparr>]"
  by (simp add: handler_defs)

theorem submit_appends_raw_input_witness:
  "\<not> isLoading (after_dictation env_declined '' hi '')
   \<and> js_trim (input (after_dictation env_declined '' hi '')) \<noteq> []
   \<and> speechSynthesis env_declined
   \<and> messages (step env_declined (after_dictation env_declined '' hi '') Submit)
       = [initialMessage, \<lparr>role = User, content = '' hi ''\<rparr>]"
proof -
  have idle: "\<not> isLoading (after_dictation env_declined '' hi '')"
    by (simp add: after_dictation_padded)
  have nonblank: "js_trim (input (after_dictation env_declined '' hi '')) \<noteq> []"
    by (simp add: after_dictation_padded js_trim_def isWhiteSpace_def)
  have synth: "speechSynthesis env_declined"
    by (simp add: env_declined_def)
  show ?thesis
    using idle nonblank synth submit_appends_raw_input [OF idle nonblank synth]
    by (simp add: after_dictation_padded)
qed

section \<open>Toggling the microphone\<close>

text \<open>
  C4, as the specification states it, fails: starting a recording empties the live
  recording text only. After one dictation of \<open>''hi''\<close> the pending input holds \<open>''hi''\<close>;
  clicking the microphone again starts capture and empties the live text, and the pending
  input is still \<open>''hi''\<close>.
\<close>

theorem toggle_clears_input_counterexample:
  "\<not> isRecording (after_dictation env_declined ''hi'')
   \<and> isRecording (step env_declined (after_dictation env_declined ''hi'') ToggleRecording)
   \<and> speechText (step env_declined (after_dictation env_declined ''hi'') ToggleRecording) = []
   \<and> input (step env_declined (after_dictation env_declined ''hi'') ToggleRecording) = ''hi''
   \<and> input (step env_declined (after_dictation env_declined ''hi'') ToggleRecording) \<noteq> []"
  by (simp add: after_dictation_hi) (simp add: env_declined_def handler_defs)

text \<open>
  C4, amended. Where the platform offers speech recognition: toggling while capture is
  inactive empties the live recording text, starts capture and marks the recording
  active; toggling while capture is active stops capture and marks the recording
  inactive. Without the recognition capability the toggle does nothing. In every case the
  pending input is left as it is, and in the idle state this is all the click does.
\<close>

theorem toggle_recording:
  "(SpeechRecognitionAPI env \<and> \<not> isRecording w \<longrightarrow>
      handleToggleRecording env w =
        w\<lparr>speechText := [], isRecording := True, trace := trace w @ [RecognitionStart]\<rparr>)
   \<and> (SpeechRecognitionAPI env \<and> isRecording w \<longrightarrow>
      handleToggleRecording env w =
        w\<lparr>isRecording := False, trace := trace w @ [RecognitionStop]\<rparr>)
   \<and> (\<not> SpeechRecognitionAPI env \<longrightarrow> handleToggleRecording env w = w)
   \<and> input (handleToggleRecording env w) = input w
   \<and> (\<not> isLoading w \<longrightarrow> step env w ToggleRecording = handleToggleRecording env w)"
  by (simp add: handler_defs)

theorem toggle_recording_witness:
  "SpeechRecognitionAPI env_declined
   \<and> \<not> isRecording (after_dictation env_declined ''hi'')
   \<and> \<not> isLoading (after_dictation env_declined ''hi'')
   \<and> step env_declined (after_dictation env_declined ''hi'') ToggleRecording =
       \<lparr>messages = [initialMessage], input = ''hi'', isLoading = False, speechText = [],
        isRecording = True, trace = [RecognitionStart, RecognitionStop, RecognitionStart],
        inflight = 0\<rparr>
   \<and> isRecording (step env_declined (mount env_declined) ToggleRecording)
   \<and> handleToggleRecording env_declined (step env_declined (mount env_declined) ToggleRecording) =
       \<lparr>messages = [initialMessage], input = [], isLoading = False, speechText = [],
        isRecording = False, trace = [RecognitionStart, RecognitionStop], inflight = 0\<rparr>"
proof -
  have api: "SpeechRecognitionAPI env_declined"
    by (simp add: env_declined_def)
  have on: "step env_declined (mount env_declined) ToggleRecording =
      \<lparr>messages = [initialMessage], input = [], isLoading = False, speechText = [],
       isRecording = True, trace = [RecognitionStart], inflight = 0\<rparr>"
    by (simp add: env_declined_def mount_def handler_defs)
  show ?thesis
    using api
      toggle_recording [of env_declined "after_dictation env_declined ''hi''"]
      toggle_recording [of env_declined "step env_declined (mount env_declined) ToggleRecording"]
    by (simp add: after_dictation_hi on del: step.simps)
qed

section \<open>Typing into the text field\<close>

text \<open>
  C5 does not hold of the code. The handler of the text field reads \<open>e.targe.value\<close>:
  the event has a \<open>target\<close> but no \<open>targe\<close>, so the handler throws a TypeError for every
  typed text and the pending input stays what it was.
\<close>

theorem typed_edit_throws:
  "onChange (changeEvent t) w = Threw TypeError w \<and> step env w (Change t) = w"
  by (simp add: onChange_changeEvent render_same)

theorem typed_edit_throws_witness:
  "onChange (changeEvent ''a'') (mount env_declined) = Threw TypeError (mount env_declined)
   \<and> input (step env_declined (mount env_declined) (Change ''a'')) = []"
  using typed_edit_throws [of "''a''" "mount env_declined" env_declined]
  by (simp add: mount_def env_declined_def handler_defs del: step.simps)

section \<open>A platform without speech synthesis\<close>

text \<open>
  What each call site does when \<open>window.speechSynthesis\<close> is missing: \<open>speak\<close> tests for
  it and only warns; the clear handler and the submit handler call
  \<open>window.speechSynthesis.cancel()\<close> untested and throw.
\<close>

lemma speak_without_synthesis:
  "\<not> speechSynthesis env \<Longrightarrow>
     speak env txt w = w\<lparr>trace := trace w @ [CallSpeak txt, ConsoleWarn]\<rparr>"
  by (simp add: speak_def emit_def)

lemma clear_without_synthesis:
  "\<not> speechSynthesis env \<Longrightarrow> threw (handleClearChat env w)"
  by (simp add: handleClearChat_def Let_def)

lemma submit_without_synthesis:
  "\<not> speechSynthesis env \<Longrightarrow> \<not> isLoading w \<Longrightarrow> js_trim (input w) \<noteq> [] \<Longrightarrow>
     threw (handleSendMessage env w)
     \<and> messages (step env w Submit) = messages w
     \<and> isLoading (step env w Submit) = isLoading w
     \<and> filter is_generation (trace (step env w Submit)) = filter is_generation (trace w)"
  by (simp add: handler_defs)

lemma after_dictation_no_synthesis:
  "after_dictation env_no_synthesis ''hi'' =
     \<lparr>messages = [initialMessage], input = ''hi'', isLoading = False, speechText = ''hi'',
      isRecording = False, trace = [LoadChatHistory, RecognitionStart, RecognitionStop],
      inflight = 0\<rparr>"
  by (simp add: scenario_defs handler_defs)

text \<open>
  C6 does not hold of the code. Without speech synthesis, clicking the clear button on a
  fresh session throws a TypeError (after the transcript was reset, before the recording
  would be stopped), and submitting the dictated text \<open>''hi''\<close> throws a TypeError before the
  user message is appended: the transcript stays the greeting alone, the session stays
  idle and no generation call is made. Only \<open>speak\<close> degrades to a warning.
\<close>

theorem cancel_without_synthesis_throws:
  "\<not> speechSynthesis env_no_synthesis
   \<and> handleClearChat env_no_synthesis (mount env_no_synthesis) =
       Threw TypeError
         \<lparr>messages = [initialMessage], input = [], isLoading = False, speechText = [],
          isRecording = False, trace = [LoadChatHistory, ClearChatHistory], inflight = 0\<rparr>
   \<and> handleSendMessage env_no_synthesis (after_dictation env_no_synthesis ''hi'') =
       Threw TypeError (after_dictation env_no_synthesis ''hi'')
   \<and> messages (step env_no_synthesis (after_dictation env_no_synthesis ''hi'') Submit) =
       [initialMessage]
   \<and> \<not> isLoading (step env_no_synthesis (after_dictation env_no_synthesis ''hi'') Submit)
   \<and> filter is_generation
       (trace (step env_no_synthesis (after_dictation env_no_synthesis ''hi'') Submit)) = []"
  by (simp add: after_dictation_no_synthesis)
     (simp add: env_no_synthesis_def mount_def js_trim_def isWhiteSpace_def handler_defs)

section \<open>While a response is awaited\<close>

text \<open>
  C7, as the specification states it, fails: while a response is awaited the text field
  and the microphone button are disabled. In the session that awaits the answer to
  \<open>''hi''\<close>, a click on the microphone and a typed \<open>''x''\<close> both leave the session exactly as
  it was: recording does not start and the pending input does not become \<open>''x''\<close>.
\<close>

theorem busy_toggle_and_edit_counterexample:
  "isLoading (awaiting env_declined ''hi'')
   \<and> SpeechRecognitionAPI env_declined
   \<and> \<not> isRecording (step env_declined (awaiting env_declined ''hi'') ToggleRecording)
   \<and> trace (step env_declined (awaiting env_declined ''hi'') ToggleRecording) =
       trace (awaiting env_declined ''hi'')
   \<and> input (step env_declined (awaiting env_declined ''hi'') (Change ''x'')) \<noteq> ''x''"
  by (simp add: awaiting_hi) (simp add: env_declined_def)

text \<open>
  C7, amended. In the awaiting-response state further submissions are rejected, and the
  text field and the microphone button are disabled, so that typed edits and recording
  toggles change nothing; clear session remains possible and resets the transcript to the
  single greeting message, leaving the busy flag and the outstanding request as they are.
\<close>

theorem busy_state_events:
  "isLoading w \<Longrightarrow>
     step env w Submit = w
     \<and> step env w ToggleRecording = w
     \<and> step env w (Change t) = w
     \<and> messages (step env w ClearChat) = [initialMessage]
     \<and> isLoading (step env w ClearChat)
     \<and> inflight (step env w ClearChat) = inflight w"
  by (auto simp: handler_defs)

theorem busy_state_events_witness:
  "isLoading (awaiting env_declined ''hi'')
   \<and> step env_declined (awaiting env_declined ''hi'') Submit = awaiting env_declined ''hi''
   \<and> step env_declined (awaiting env_declined ''hi'') ToggleRecording
       = awaiting env_declined ''hi''
   \<and> step env_declined (awaiting env_declined ''hi'') (Change ''x'')
       = awaiting env_declined ''hi''
   \<and> messages (awaiting env_declined ''hi'') = [initialMessage, \<lparr>role = User, content = ''hi''\<rparr>]
   \<and> messages (step env_declined (awaiting env_declined ''hi'') ClearChat) = [initialMessage]
   \<and> isLoading (step env_declined (awaiting env_declined ''hi'') ClearChat)
   \<and> inflight (step env_declined (awaiting env_declined ''hi'') ClearChat) = 1"
proof -
  have busy: "isLoading (awaiting env_declined ''hi'')"
    by (simp add: awaiting_hi)
  have "inflight (awaiting env_declined ''hi'') = 1"
    and "messages (awaiting env_declined ''hi'')
          = [initialMessage, \<lparr>role = User, content = ''hi''\<rparr>]"
    by (simp_all add: awaiting_hi)
  then show ?thesis
    using busy busy_state_events [OF busy, of env_declined "''x''"]
    by (simp del: step.simps)
qed

section \<open>A failed generation call\<close>

text \<open>
  C8. When the outstanding generation call fails, the transcript gains exactly one message,
  the fixed apology of role model; \<open>speak\<close> is called exactly once more, with the
  apology's content; the busy flag is cleared; and the resulting session is the same
  whatever the error was, so the error's text reaches no part of it.
\<close>

theorem generation_failure_apology:
  "inflight w \<noteq> 0 \<Longrightarrow>
     messages (step env w (ResponseFailed err)) = messages w @ [errorMessage]
     \<and> role errorMessage = Model
     \<and> filter is_speak_call (trace (step env w (ResponseFailed err))) =
         filter is_speak_call (trace w) @ [CallSpeak (content errorMessage)]
     \<and> \<not> isLoading (step env w (ResponseFailed err))
     \<and> inflight (step env w (ResponseFailed err)) = inflight w - 1
     \<and> step env w (ResponseFailed err) = step env w (ResponseFailed err')"
proof -
  have "role errorMessage = Model"
    by (simp add: errorMessage_def)
  moreover assume "inflight w \<noteq> 0"
  ultimately show ?thesis
    by (simp add: handler_defs)
qed

theorem generation_failure_apology_witness:
  "inflight (awaiting env_declined ''hi'') \<noteq> 0
   \<and> messages (step env_declined (awaiting env_declined ''hi'') (ResponseFailed ''boom'')) =
       [initialMessage, \<lparr>role = User, content = ''hi''\<rparr>, errorMessage]
   \<and> filter is_speak_call
       (trace (step env_declined (awaiting env_declined ''hi'') (ResponseFailed ''boom''))) =
       [CallSpeak (content errorMessage)]
   \<and> \<not> isLoading (step env_declined (awaiting env_declined ''hi'') (ResponseFailed ''boom''))
   \<and> inflight (step env_declined (awaiting env_declined ''hi'') (ResponseFailed ''boom'')) = 0"
proof -
  have pending: "inflight (awaiting env_declined ''hi'') \<noteq> 0"
    by (simp add: awaiting_hi)
  have "messages (awaiting env_declined ''hi'')
          = [initialMessage, \<lparr>role = User, content = ''hi''\<rparr>]"
    and "filter is_speak_call (trace (awaiting env_declined ''hi'')) = []"
    and "inflight (awaiting env_declined ''hi'') = 1"
    by (simp_all add: awaiting_hi)
  then show ?thesis
    using pending generation_failure_apology [OF pending, of env_declined "''boom''" "''boom''"]
    by (simp del: step.simps)
qed

section \<open>The transcript is never empty\<close>

text \<open>
  C9. In every state reached from mounting, the transcript has at least one message: it
  starts as the greeting alone or as a non-empty restored history; every event leaves it
  as it is, appends one message to it, or resets it to the greeting alone; and clear
  session resets it to exactly the greeting alone.
\<close>

theorem transcript_never_empty:
  "1 \<le> length (messages (run env (mount env) evs))
   \<and> (messages (mount env) = [initialMessage]
       \<or> (savedMessages env = Some (messages (mount env)) \<and> 1 \<le> length (messages (mount env))))
   \<and> (messages (step env w ev) = messages w
       \<or> (\<exists>m. messages (step env w ev) = messages w @ [m])
       \<or> messages (step env w ev) = [initialMessage])
   \<and> messages (step env w ClearChat) = [initialMessage]"
proof (intro conjI)
  have "messages (run env (mount env) evs) \<noteq> []"
    by (simp add: run_messages_nonempty mount_messages_nonempty)
  then show "1 \<le> length (messages (run env (mount env) evs))"
    by (cases "messages (run env (mount env) evs)") simp_all
next
  show "messages (mount env) = [initialMessage]
       \<or> (savedMessages env = Some (messages (mount env)) \<and> 1 \<le> length (messages (mount env)))"
    by (cases "savedMessages env") (auto simp: mount_def handler_defs Suc_le_eq)
next
  show "messages (step env w ev) = messages w
       \<or> (\<exists>m. messages (step env w ev) = messages w @ [m])
       \<or> messages (step env w ev) = [initialMessage]"
    by (rule step_messages_cases)
next
  show "messages (step env w ClearChat) = [initialMessage]"
    by (rule clear_messages)
qed

theorem transcript_never_empty_witness:
  "1 \<le> length (messages (run env_accepted (mount env_accepted)
                  (dictate ''hi'' @ [Submit, ClearChat, ResponseFailed ''boom''])))
   \<and> messages (mount env_accepted) = [initialMessage]
   \<and> messages (step env_accepted (awaiting env_accepted ''hi'') ClearChat) = [initialMessage]"
proof -
  have "messages (mount env_accepted) = [initialMessage]"
    by (simp add: mount_def env_accepted_def handler_defs)
  then show ?thesis
    using transcript_never_empty [of env_accepted
        "dictate ''hi'' @ [Submit, ClearChat, ResponseFailed ''boom'']"
        "awaiting env_accepted ''hi''" ClearChat]
    by (simp del: step.simps)
qed

section \<open>The live text of a recognition update\<close>

text \<open>
  What \<open>onresult\<close> computes on any list: the transcripts of the finalized entries in the
  order reported, then those of the interim entries in the order reported.
\<close>

lemma onresult_finals_then_interims:
  "speechText (onresult rs w) =
     concat (map transcript (filter isFinal rs))
     @ concat (map transcript (filter (\<lambda>r. \<not> isFinal r) rs))"
  by (simp add: onresult_def onresult_loop_eq)

lemma render_speechText: "speechText (render env w w') = speechText w'"
  by (simp add: render_def saveEffect_def speechEffect_def emit_def Let_def)

text \<open>
  C10. A recognition update carries the finalized entries followed by the interim ones
  still open (finalized text is never reported as interim again). On every such update
  the live text is the transcripts of all entries concatenated in the order reported, the
  finalized ones coming first and for good, the interim ones as the provisional end; and
  this is the live text the session holds after the update.
\<close>

theorem live_text_reported_order:
  "list_all isFinal fs \<Longrightarrow> list_all (\<lambda>r. \<not> isFinal r) ins \<Longrightarrow>
     speechText (onresult (fs @ ins) w) = concat (map transcript (fs @ ins))
     \<and> speechText (onresult (fs @ ins) w) =
         concat (map transcript fs) @ concat (map transcript ins)
     \<and> (SpeechRecognitionAPI env \<longrightarrow>
          speechText (step env w (RecognitionResult (fs @ ins))) =
            concat (map transcript (fs @ ins)))"
proof -
  assume "list_all isFinal fs" and "list_all (\<lambda>r. \<not> isFinal r) ins"
  then have "filter isFinal fs = fs" and "filter (\<lambda>r. \<not> isFinal r) fs = []"
    and "filter isFinal ins = []" and "filter (\<lambda>r. \<not> isFinal r) ins = ins"
    by (auto simp: list_all_iff filter_empty_conv intro: filter_True)
  then have "speechText (onresult (fs @ ins) w) = concat (map transcript (fs @ ins))"
    by (simp add: onresult_finals_then_interims)
  then show ?thesis
    by (simp add: render_speechText)
qed

theorem live_text_reported_order_witness:
  "list_all isFinal [\<lparr>isFinal = True, transcript = ''headache ''\<rparr>,
                     \<lparr>isFinal = True, transcript = ''relief ''\<rparr>]
   \<and> list_all (\<lambda>r. \<not> isFinal r) [\<lparr>isFinal = False, transcript = ''for''\<rparr>]
   \<and> SpeechRecognitionAPI env_declined
   \<and> speechText (onresult [\<lparr>isFinal = True, transcript = ''headache ''\<rparr>,
                           \<lparr>isFinal = True, transcript = ''relief ''\<rparr>,
                           \<lparr>isFinal = False, transcript = ''for''\<rparr>] (mount env_declined))
       = ''headache relief for''
   \<and> speechText (step env_declined (mount env_declined)
        (RecognitionResult [\<lparr>isFinal = True, transcript = ''headache ''\<rparr>,
                            \<lparr>isFinal = True, transcript = ''relief ''\<rparr>,
                            \<lparr>isFinal = False, transcript = ''for''\<rparr>]))
       = ''headache relief for''"
proof -
  have finals: "list_all isFinal [\<lparr>isFinal = True, transcript = ''headache ''\<rparr>,
                                  \<lparr>isFinal = True, transcript = ''relief ''\<rparr>]"
    by simp
  have interims: "list_all (\<lambda>r. \<not> isFinal r) [\<lparr>isFinal = False, transcript = ''for''\<rparr>]"
    by simp
  have api: "SpeechRecognitionAPI env_declined"
    by (simp add: env_declined_def)
  show ?thesis
    using finals interims api
      live_text_reported_order [OF finals interims, of "mount env_declined" env_declined]
    by (simp del: step.simps)
qed

end
